theory Spec2Isabelle
  imports Main "HOL-Library.Sublist"
begin

section \<open>Strings\<close>

text \<open>
  JavaScript strings are modelled as \<^typ>\<open>string\<close>. Every string the modelled code
  inspects character by character (URL pathnames, command output) is ASCII, so that one
  \<^typ>\<open>char\<close> is one UTF-16 code unit.
\<close>

definition is_lower :: "char \<Rightarrow> bool" where
  "is_lower c = (97 \<le> (of_char c :: nat) \<and> (of_char c :: nat) \<le> 122)"

definition is_upper :: "char \<Rightarrow> bool" where
  "is_upper c = (65 \<le> (of_char c :: nat) \<and> (of_char c :: nat) \<le> 90)"

definition is_digit :: "char \<Rightarrow> bool" where
  "is_digit c = (48 \<le> (of_char c :: nat) \<and> (of_char c :: nat) \<le> 57)"

text \<open>The character class \<^verbatim>\<open>[a-zA-Z0-9-_]\<close> of the filename derivation.\<close>

definition in_class :: "char \<Rightarrow> bool" where
  "in_class c = (is_lower c \<or> is_upper c \<or> is_digit c \<or> c = CHR ''-'' \<or> c = CHR ''_'')"

text \<open>\<^verbatim>\<open>s.replace(/^X/, '')\<close> for a single character \<open>X\<close>: drops one leading \<open>X\<close>.\<close>

fun replace_leading :: "char \<Rightarrow> string \<Rightarrow> string" where
  "replace_leading x [] = []"
| "replace_leading x (c # cs) = (if c = x then cs else c # cs)"

text \<open>
  \<^verbatim>\<open>s.replace(/C/g, 'y')\<close> for a pattern \<open>C\<close> that matches exactly one character
  (a literal or a character class) and a one-character replacement: every matching
  character is replaced, from left to right.
\<close>

fun replace_global :: "(char \<Rightarrow> bool) \<Rightarrow> char \<Rightarrow> string \<Rightarrow> string" where
  "replace_global m y [] = []"
| "replace_global m y (c # cs) = (if m c then y else c) # replace_global m y cs"

text \<open>\<^verbatim>\<open>a || b\<close> on strings: the empty string is falsy.\<close>

definition or_else :: "string \<Rightarrow> string \<Rightarrow> string" where
  "or_else a b = (if a = [] then b else a)"

text \<open>\<^verbatim>\<open>String.prototype.trim\<close> on ASCII: strips white space and line terminators.\<close>

definition is_space :: "char \<Rightarrow> bool" where
  "is_space c = (c = CHR '' '' \<or> (9 \<le> (of_char c :: nat) \<and> (of_char c :: nat) \<le> 13))"

definition trim :: "string \<Rightarrow> string" where
  "trim s = rev (dropWhile is_space (rev (dropWhile is_space s)))"

definition newline :: string where
  "newline = [CHR 0x0A]"

text \<open>Template rendering of a non-negative integer: its decimal digits.\<close>

definition digit_char :: "nat \<Rightarrow> char" where
  "digit_char d = ''0123456789'' ! d"

fun show_nat :: "nat \<Rightarrow> string" where
  "show_nat n = (if n < 10 then [digit_char n] else show_nat (n div 10) @ [digit_char (n mod 10)])"

declare show_nat.simps [simp del]

text \<open>\<^verbatim>\<open>xs.join(sep)\<close>.\<close>

fun join :: "string \<Rightarrow> string list \<Rightarrow> string" where
  "join sep [] = []"
| "join sep [x] = x"
| "join sep (x # y # ys) = x @ sep @ join sep (y # ys)"

section \<open>Reference-image filenames\<close>

text \<open>
  The derivation written into the scaffolded test file by
  \<^verbatim>\<open>TestRunner.createTemplateTestFile\<close>:
  \<^verbatim>\<open>
    const filename = urlPath
      .replace(/^\//, '')
      .replace(/\//g, '-')
      .replace(/[^a-zA-Z0-9-_]/g, '_')
      || 'homepage';
  \<close>
\<close>

definition filename :: "string \<Rightarrow> string" where
  "filename urlPath =
     or_else
       (replace_global (\<lambda>c. \<not> in_class c) (CHR ''_'')
         (replace_global (\<lambda>c. c = CHR ''/'') (CHR ''-'')
           (replace_leading (CHR ''/'') urlPath)))
       ''homepage''"

text \<open>What one character of the path (after the leading slash) becomes.\<close>

definition filename_char :: "char \<Rightarrow> char" where
  "filename_char c = (if c = CHR ''/'' then CHR ''-'' else if in_class c then c else CHR ''_'')"

section \<open>The environment: child processes, git, the file system\<close>

text \<open>
  Every git, file-system and test-runner operation of the extension is a shell command run
  through Node's \<^verbatim>\<open>child_process.exec\<close>. What such a command does is decided by the
  environment, so the model takes it as input: the world carries a function \<open>outcome_of\<close> that gives
  the outcome of the \<open>n\<close>-th command, and records every command in a \<open>trace\<close>.
\<close>

record exec_result =
  exit_code :: int
  stdout :: string
  stderr :: string

text \<open>
  A thrown value: an \<^verbatim>\<open>Error\<close> created by the extension (its message), or the error of a
  rejected \<^verbatim>\<open>execAsync\<close> promise, which carries the child's exit code, stdout and stderr
  next to its message.
\<close>

datatype error = Error string | ExecError string exec_result

fun error_message :: "error \<Rightarrow> string" where
  "error_message (Error m) = m"
| "error_message (ExecError m r) = m"

fun error_stdout :: "error \<Rightarrow> string" where
  "error_stdout (Error m) = []"
| "error_stdout (ExecError m r) = stdout r"

fun error_stderr :: "error \<Rightarrow> string" where
  "error_stderr (Error m) = []"
| "error_stderr (ExecError m r) = stderr r"

type_synonym env = "(string \<times> string) list"

record call =
  cmd :: string
  call_env :: "env option"
  exit :: int

text \<open>
  A child process started in the background (\<^verbatim>\<open>exec\<close> without awaiting its exit).
  \<open>exited\<close> says whether the child's \<^verbatim>\<open>'exit'\<close> event has already been emitted by the
  time somebody tries to stop it; \<open>has_group\<close> whether a process group with the child's
  pid exists.
\<close>

record child =
  pid :: "nat option"
  exited :: bool
  has_group :: bool

datatype fs_node = File | Dir "string list"

record world =
  workspace_root :: string
  head_branch :: string
  staging :: "string set"
  fs :: "string \<Rightarrow> fs_node option"
  now :: nat
  process_env :: env
  trace :: "call list"
  outcome_of :: "nat \<Rightarrow> exec_result"
  spawned :: "(string \<times> env option) list"
  child_of :: "nat \<Rightarrow> child"
  signals :: "int list"
  prompts :: "string list"
  answers :: "nat \<Rightarrow> string option"
  notifications :: "string list"
  console :: "string list"
  opened :: "string list"

text \<open>
  \<^verbatim>\<open>execAsync(cmd, {env})\<close>, the promisified \<^verbatim>\<open>exec\<close>: resolves with the child's stdout
  and stderr when it exits with code 0, and rejects otherwise (a child killed by a signal
  counts as a non-zero exit code) with an error whose message is
  \<^verbatim>\<open>Command failed: <cmd>\<close>, a line break and the child's stderr. A command takes time:
  the clock, in milliseconds, has moved on when it is over.
\<close>

definition execAsync :: "string \<Rightarrow> env option \<Rightarrow> world \<Rightarrow> (error + string \<times> string) \<times> world" where
  "execAsync c e w =
     (let r = outcome_of w (length (trace w));
          w' = w\<lparr>trace := trace w @ [\<lparr>cmd = c, call_env = e, exit = exit_code r\<rparr>],
                 now := now w + 1\<rparr>
      in if exit_code r = 0 then (Inr (stdout r, stderr r), w')
         else (Inl (ExecError (''Command failed: '' @ c @ newline @ stderr r) r), w'))"

text \<open>\<^verbatim>\<open>exec(cmd, {env})\<close> without awaiting: the child runs in the background.\<close>

definition exec_spawn :: "string \<Rightarrow> env option \<Rightarrow> world \<Rightarrow> child \<times> world" where
  "exec_spawn c e w = (child_of w (length (spawned w)), w\<lparr>spawned := spawned w @ [(c, e)]\<rparr>)"

text \<open>
  \<^verbatim>\<open>console.error\<close>: the console records the failures that are logged and dropped.
  Informational lines written with \<^verbatim>\<open>console.log\<close> are left out.
\<close>

definition console_error :: "string \<Rightarrow> world \<Rightarrow> world" where
  "console_error m w = w\<lparr>console := console w @ [m]\<rparr>"

text \<open>
  \<^verbatim>\<open>vscode.window.showWarningMessage(message, ...items)\<close> and its siblings with items:
  the user's choice, or nothing when the message is dismissed.
\<close>

definition show_prompt :: "string \<Rightarrow> world \<Rightarrow> string option \<times> world" where
  "show_prompt m w = (answers w (length (prompts w)), w\<lparr>prompts := prompts w @ [m]\<rparr>)"

text \<open>A message shown without waiting for an answer.\<close>

definition notify :: "string \<Rightarrow> world \<Rightarrow> world" where
  "notify m w = w\<lparr>notifications := notifications w @ [m]\<rparr>"

text \<open>Object spread \<^verbatim>\<open>{...a, ...b}\<close> on environments: the keys of \<open>b\<close> win.\<close>

fun env_set :: "string \<Rightarrow> string \<Rightarrow> env \<Rightarrow> env" where
  "env_set k v [] = [(k, v)]"
| "env_set k v ((k', v') # m) = (if k' = k then (k, v) # m else (k', v') # env_set k v m)"

definition spread :: "env \<Rightarrow> env \<Rightarrow> env" where
  "spread a b = fold (\<lambda>(k, v). env_set k v) b a"

section \<open>Configuration\<close>

text \<open>
  The \<^verbatim>\<open>visualRegression\<close> settings. A setting that is not set is \<open>None\<close>; every
  \<^verbatim>\<open>config.get(key, default)\<close> names its own default, and the defaults of \<open>testPath\<close>
  differ between \<^verbatim>\<open>TestRunner\<close> and \<^verbatim>\<open>PlaywrightService\<close>.
\<close>

record config =
  cfg_mainBranch :: "string option"
  cfg_serverPort :: "nat option"
  cfg_serverStartupTime :: "nat option"
  cfg_testPath :: "string option"
  cfg_serverStartCommand :: "string option"
  cfg_environmentVariables :: "env option"
  cfg_notifyOnCompletion :: bool

definition get :: "'a option \<Rightarrow> 'a \<Rightarrow> 'a" where
  "get v d = (case v of None \<Rightarrow> d | Some x \<Rightarrow> x)"

section \<open>PlaywrightService\<close>

record TestResult =
  success :: bool
  "output" :: string



text \<open>The outcome the environment has in store for the next command.\<close>

definition next_result :: "world \<Rightarrow> exec_result" where
  "next_result w = outcome_of w (length (trace w))"

section \<open>Asynchronous functions\<close>

text \<open>
  An \<^verbatim>\<open>async\<close> function runs until its next \<^verbatim>\<open>await\<close>, is suspended while the awaited
  operation is in progress, and continues with its result. \<open>Await t k\<close> is a function
  suspended on an operation: when the operation completes in state \<open>s\<close>, the state becomes
  \<open>t s\<close> and the function continues as \<open>k s\<close>. \<open>Done a\<close> has returned (or thrown) \<open>a\<close>;
  \<open>Hang\<close> awaits a promise that is never settled. The operations awaited are taken as
  atomic.
\<close>

datatype (dead 's, 'a) proc = Done 'a | Hang | Await "'s \<Rightarrow> 's" "'s \<Rightarrow> ('s, 'a) proc"

text \<open>Awaiting an operation that completes with a value.\<close>

definition await :: "('s \<Rightarrow> 'b \<times> 's) \<Rightarrow> ('b \<Rightarrow> ('s, 'a) proc) \<Rightarrow> ('s, 'a) proc" where
  "await f k = Await (\<lambda>s. snd (f s)) (\<lambda>s. k (fst (f s)))"

text \<open>Awaiting an operation whose promise may never be settled (\<open>None\<close>).\<close>

definition await_opt :: "('s \<Rightarrow> 'b option \<times> 's) \<Rightarrow> ('b \<Rightarrow> ('s, 'a) proc) \<Rightarrow> ('s, 'a) proc" where
  "await_opt f k =
     Await (\<lambda>s. snd (f s)) (\<lambda>s. case fst (f s) of None \<Rightarrow> Hang | Some b \<Rightarrow> k b)"

text \<open>
  Awaiting an operation inside a \<^verbatim>\<open>try\<close> block: a rejection leaves the block with the
  error and the values \<open>st\<close> of the variables the handlers read.
\<close>

definition attempt ::
  "('s \<Rightarrow> (error + 'b) \<times> 's) \<Rightarrow> 'c \<Rightarrow> ('b \<Rightarrow> ('s, (error + 'a) \<times> 'c) proc)
     \<Rightarrow> ('s, (error + 'a) \<times> 'c) proc" where
  "attempt f st k = await f (\<lambda>r. case r of Inl e \<Rightarrow> Done (Inl e, st) | Inr x \<Rightarrow> k x)"

text \<open>
  A block of synchronous code that changes the state, followed by \<open>p\<close>. It is a step of
  its own, which only adds interleavings.
\<close>

definition sync :: "('s \<Rightarrow> 's) \<Rightarrow> ('s, 'a) proc \<Rightarrow> ('s, 'a) proc" where
  "sync f p = Await f (\<lambda>s. p)"

text \<open>Sequencing: what follows the completion of \<open>p\<close>.\<close>

primrec and_then :: "('s, 'a) proc \<Rightarrow> ('a \<Rightarrow> ('s, 'b) proc) \<Rightarrow> ('s, 'b) proc" where
  "and_then (Done a) f = f a"
| "and_then Hang f = Hang"
| "and_then (Await t k) f = Await t (\<lambda>s. and_then (k s) f)"

text \<open>
  Running a function to completion with nothing else running in between: the value it
  returns and the final state, or \<open>None\<close> when it never completes.
\<close>

primrec run :: "('s, 'a) proc \<Rightarrow> 's \<Rightarrow> ('a \<times> 's) option" where
  "run (Done a) = (\<lambda>s. Some (a, s))"
| "run Hang = (\<lambda>s. None)"
| "run (Await t k) = (\<lambda>s. run (k s) (t s))"

text \<open>
  Two invocations in progress at the same time: the schedule says which of the two
  (\<open>True\<close> the first, \<open>False\<close> the second) completes its awaited operation next. An
  invocation that has finished, or that hangs, takes no step.
\<close>

fun interleave ::
  "bool list \<Rightarrow> ('s, 'a) proc \<Rightarrow> ('s, 'b) proc \<Rightarrow> 's \<Rightarrow> ('s, 'a) proc \<times> ('s, 'b) proc \<times> 's" where
  "interleave [] p q s = (p, q, s)"
| "interleave (True # sch) (Await t k) q s = interleave sch (k s) q (t s)"
| "interleave (True # sch) p q s = interleave sch p q s"
| "interleave (False # sch) p (Await t k) s = interleave sch p (k s) (t s)"
| "interleave (False # sch) p q s = interleave sch p q s"

fun returned :: "('s, 'a) proc \<Rightarrow> 'a option" where
  "returned (Done a) = Some a"
| "returned Hang = None"
| "returned (Await t k) = None"

section \<open>GitService\<close>

text \<open>
  What \<^verbatim>\<open>git branch --show-current\<close> prints: the name of the active branch and a line
  break (an empty line when HEAD is detached, which is the empty name here).
\<close>

definition show_current_output :: "world \<Rightarrow> string" where
  "show_current_output w = head_branch w @ newline"

definition getCurrentBranch :: "world \<Rightarrow> (error + string) \<times> world" where
  "getCurrentBranch w =
     (case execAsync ''git branch --show-current'' None w of
        (Inl e, w') \<Rightarrow> (Inl e, w')
      | (Inr (out, err), w') \<Rightarrow> (Inr (trim (show_current_output w)), w'))"

text \<open>
  \<^verbatim>\<open>checkout(branch)\<close>: a failure of \<^verbatim>\<open>git clean\<close> is ignored, a failure of
  \<^verbatim>\<open>git checkout -f\<close> is thrown. A successful \<^verbatim>\<open>git checkout -f <branch>\<close> makes the
  branch the active one (without a name nothing is switched); a failed one leaves the
  active branch as it is.
\<close>

definition checkout :: "string \<Rightarrow> world \<Rightarrow> (error + unit) \<times> world" where
  "checkout branch w =
     (let w0 = snd (execAsync ''git clean -fd test-results/ playwright-report/'' None w)
      in case execAsync (''git checkout -f '' @ branch) None w0 of
           (Inl e, w1) \<Rightarrow> (Inl e, w1)
         | (Inr _, w1) \<Rightarrow>
             (Inr (), w1\<lparr>head_branch := (if branch = [] then head_branch w1 else branch)\<rparr>))"

definition clearSnapshots :: "world \<Rightarrow> unit \<times> world" where
  "clearSnapshots w =
     (case execAsync ''rm -rf tests/visual/*.spec.ts-snapshots'' None w of
        (Inl e, w') \<Rightarrow> ((), console_error ''[Git] Failed to clear snapshots:'' w')
      | (Inr _, w') \<Rightarrow> ((), w'))"

text \<open>
  \<^verbatim>\<open>saveSnapshotsToTemp()\<close>: the directory is named after the clock and returned whether
  the command succeeds or not. The command that succeeds has created the directory.
\<close>

definition saveSnapshotsToTemp :: "world \<Rightarrow> string \<times> world" where
  "saveSnapshotsToTemp w =
     (let tmpDir = ''/tmp/visual-regression-baseline-'' @ show_nat (now w)
      in case execAsync (''mkdir -p '' @ tmpDir @ '' && cp -r tests/visual/*.spec.ts-snapshots ''
                         @ tmpDir @ ''/ 2>/dev/null || true'') None w of
           (Inl e, w') \<Rightarrow> (tmpDir, console_error ''[Git] Failed to save snapshots:'' w')
         | (Inr _, w') \<Rightarrow> (tmpDir, w'\<lparr>staging := insert tmpDir (staging w')\<rparr>))"

definition restoreSnapshotsFromTemp :: "string \<Rightarrow> world \<Rightarrow> unit \<times> world" where
  "restoreSnapshotsFromTemp tmpDir w =
     (case execAsync (''rm -rf tests/visual/*.spec.ts-snapshots && cp -r '' @ tmpDir
                      @ ''/*.spec.ts-snapshots tests/visual/ 2>/dev/null || true'') None w of
        (Inl e, w') \<Rightarrow> ((), console_error ''[Git] Failed to restore snapshots:'' w')
      | (Inr _, w') \<Rightarrow> ((), w'))"

text \<open>
  \<^verbatim>\<open>cleanupTemp(tmpDir)\<close>: a successful \<^verbatim>\<open>rm -rf\<close> has removed the directory; a failed
  one is logged and the directory stays.
\<close>

definition cleanupTemp :: "string \<Rightarrow> world \<Rightarrow> unit \<times> world" where
  "cleanupTemp tmpDir w =
     (case execAsync (''rm -rf '' @ tmpDir) None w of
        (Inl e, w') \<Rightarrow> ((), console_error ''[Git] Failed to cleanup temp:'' w')
      | (Inr _, w') \<Rightarrow> ((), w'\<lparr>staging := staging w' - {tmpDir}\<rparr>))"

section \<open>ServerService\<close>

record serverService =
  serverProcess :: "child option"

definition isPortInUse :: "nat \<Rightarrow> world \<Rightarrow> bool \<times> world" where
  "isPortInUse port w =
     (case execAsync (''lsof -ti:'' @ show_nat port) None w of
        (Inl e, w') \<Rightarrow> (False, w')
      | (Inr (out, err), w') \<Rightarrow> (trim out \<noteq> [], w'))"

text \<open>
  \<^verbatim>\<open>stop()\<close>. Without a tracked process it returns at once. Otherwise it resolves from
  the listener it registers for the child's \<^verbatim>\<open>'exit'\<close> event, which clears the handle.
  The process group \<open>-pid\<close> is signalled, and the child itself when that throws. A running
  child that is signalled exits; a child that has no pid is not signalled, and a child
  that had exited before emits no further event: in both cases the promise is never
  settled.
\<close>

definition stop :: "serverService \<Rightarrow> world \<Rightarrow> serverService option \<times> world" where
  "stop srv w =
     (case serverProcess srv of
        None \<Rightarrow> (Some srv, w)
      | Some ch \<Rightarrow>
          (case pid ch of
             None \<Rightarrow> (None, w)
           | Some p \<Rightarrow>
               (let w' = (if has_group ch then w\<lparr>signals := signals w @ [- int p]\<rparr>
                          else w\<lparr>signals := signals w @ [- int p, int p]\<rparr>)
                in if exited ch then (None, w')
                   else (Some (srv\<lparr>serverProcess := None\<rparr>), w'))))"

text \<open>
  \<^verbatim>\<open>start()\<close>: the port is probed first; a tracked process is stopped; the server command
  is started in the background with the merged environment.
\<close>

definition start :: "config \<Rightarrow> serverService \<Rightarrow> world \<Rightarrow> ((error + unit) \<times> serverService) option \<times> world" where
  "start cfg srv w =
     (let startCommand = get (cfg_serverStartCommand cfg) ''npm run dev'';
          port = get (cfg_serverPort cfg) 3000;
          customEnvVars = get (cfg_environmentVariables cfg) [];
          (portInUse, w1) = isPortInUse port w
      in if portInUse then
           (Some (Inl (Error (''Port '' @ show_nat port @ '' is already in use. Please stop the process using this port or configure a different port in settings (visualRegression.serverPort).'')), srv), w1)
         else
           (case (if serverProcess srv \<noteq> None then stop srv w1 else (Some srv, w1)) of
              (None, w2) \<Rightarrow> (None, w2)
            | (Some srv1, w2) \<Rightarrow>
                (let env = spread (process_env w2) customEnvVars;
                     (ch, w3) = exec_spawn startCommand (Some env) w2
                 in (Some (Inr (), srv1\<lparr>serverProcess := Some ch\<rparr>), w3))))"

text \<open>
  Modelled from the spec: \<^verbatim>\<open>ServerService.killPort(port)\<close> is called by the failure
  handler of \<^verbatim>\<open>runTest\<close>, and its body is not part of the sources at hand. The spec has
  it as a \<open>forceful last-resort reclaim used only during failure cleanup, bypassing the
  normal stop handshake\<close>: whatever listens on the port is killed, and nothing is thrown.
\<close>

definition killPort :: "nat \<Rightarrow> world \<Rightarrow> unit \<times> world" where
  "killPort port w =
     ((), snd (execAsync (''lsof -ti:'' @ show_nat port @ '' | xargs kill -9 2>/dev/null || true'') None w))"

section \<open>PlaywrightService for a list of targets\<close>

text \<open>
  Modelled from the spec: \<^verbatim>\<open>PlaywrightService.updateAllSnapshots(urlPaths, port)\<close> is
  called by \<^verbatim>\<open>runTest\<close>, and its body is not part of the sources at hand. The spec has
  it invoke the external runner in snapshot-update mode for the full target set, with
  \<^verbatim>\<open>TEST_URL\<close>/\<^verbatim>\<open>TEST_URLS\<close> and the custom environment variables set; it \<open>must complete
  with an exit code of zero or the step fails with CaptureError carrying the runner's
  combined output\<close>.
\<close>

definition updateAllSnapshots :: "config \<Rightarrow> string list \<Rightarrow> nat \<Rightarrow> world \<Rightarrow> (error + unit) \<times> world" where
  "updateAllSnapshots cfg urlPaths port w =
     (let testPath = get (cfg_testPath cfg) ''tests/visual/pages.spec.ts'';
          customEnvVars = get (cfg_environmentVariables cfg) [];
          urls = map (\<lambda>urlPath. ''http://localhost:'' @ show_nat port @ urlPath) urlPaths;
          c = ''npx playwright test '' @ testPath @ '' --update-snapshots'';
          env = spread (env_set ''TEST_URLS'' (join '','' urls)
                         (env_set ''TEST_URL'' (join '','' (take 1 urls)) (process_env w)))
                       customEnvVars
      in case execAsync c (Some env) w of
           (Inr _, w') \<Rightarrow> (Inr (), w')
         | (Inl e, w') \<Rightarrow>
             (Inl (Error (''Playwright test failed: '' @ error_message e @ newline @
                          error_stdout e @ error_stderr e)), w'))"

text \<open>
  Modelled from the spec: \<^verbatim>\<open>PlaywrightService.runAllTests(urlPaths, port)\<close> is called by
  \<^verbatim>\<open>runTest\<close>, and its body is not part of the sources at hand. The spec has it invoke the
  external runner in normal assertion mode against the same target set and return
  \<open>a result with success = (exit code == 0); a non-zero exit is not raised as an
  error\<close>, the raw combined output being preserved.
\<close>

definition runAllTests :: "config \<Rightarrow> string list \<Rightarrow> nat \<Rightarrow> world \<Rightarrow> (error + TestResult) \<times> world" where
  "runAllTests cfg urlPaths port w =
     (let testPath = get (cfg_testPath cfg) ''tests/visual/pages.spec.ts'';
          customEnvVars = get (cfg_environmentVariables cfg) [];
          urls = map (\<lambda>urlPath. ''http://localhost:'' @ show_nat port @ urlPath) urlPaths;
          c = ''npx playwright test '' @ testPath @ '' --reporter=html'';
          env = spread (env_set ''TEST_URLS'' (join '','' urls)
                         (env_set ''TEST_URL'' (join '','' (take 1 urls)) (process_env w)))
                       customEnvVars
      in case execAsync c (Some env) w of
           (Inr (out, err), w') \<Rightarrow> (Inr \<lparr>success = True, output = out @ err\<rparr>, w')
         | (Inl e, w') \<Rightarrow> (Inr \<lparr>success = False, output = error_stdout e @ error_stderr e\<rparr>, w'))"

section \<open>TestRunner\<close>

text \<open>
  The file system, as far as \<^verbatim>\<open>validateSetup\<close> looks at it: which paths exist, which of
  them are directories, and the names a directory lists. File contents are not modelled.
  Paths are joined with a slash.
\<close>

definition path_join :: "string \<Rightarrow> string \<Rightarrow> string" where
  "path_join a b = a @ ''/'' @ b"

definition path_dirname :: "string \<Rightarrow> string" where
  "path_dirname p =
     (let d = rev (drop 1 (dropWhile (\<lambda>c. c \<noteq> CHR ''/'') (rev p)))
      in if d \<noteq> [] then d else if CHR ''/'' \<in> set p then ''/'' else ''.'')"

definition ends_with :: "string \<Rightarrow> string \<Rightarrow> bool" where
  "ends_with s suf = (length suf \<le> length s \<and> drop (length s - length suf) s = suf)"

definition existsSync :: "string \<Rightarrow> world \<Rightarrow> bool" where
  "existsSync p w = (fs w p \<noteq> None)"

definition isDirectory :: "string \<Rightarrow> world \<Rightarrow> bool" where
  "isDirectory p w = (case fs w p of Some (Dir names) \<Rightarrow> True | _ \<Rightarrow> False)"

definition readdirSync :: "string \<Rightarrow> world \<Rightarrow> string list" where
  "readdirSync p w = (case fs w p of Some (Dir names) \<Rightarrow> names | _ \<Rightarrow> [])"

text \<open>\<^verbatim>\<open>fs.mkdirSync(p, { recursive: true })\<close>.\<close>

definition mkdirSync :: "string \<Rightarrow> world \<Rightarrow> world" where
  "mkdirSync p w = (if existsSync p w then w else w\<lparr>fs := (fs w)(p \<mapsto> Dir [])\<rparr>)"

text \<open>\<^verbatim>\<open>fs.writeFileSync(path.join(dir, name), content, 'utf8')\<close>.\<close>

definition writeFileSync :: "string \<Rightarrow> string \<Rightarrow> world \<Rightarrow> world" where
  "writeFileSync dir name w =
     w\<lparr>fs := (fs w)(path_join dir name \<mapsto> File,
                      dir \<mapsto> Dir (List.insert name (readdirSync dir w)))\<rparr>"

definition wait :: "nat \<Rightarrow> world \<Rightarrow> unit \<times> world" where
  "wait ms w = ((), w\<lparr>now := now w + ms\<rparr>)"

text \<open>
  \<^verbatim>\<open>createTemplateTestFile(testDir, testPath)\<close> writes the scaffolded test file (whose
  filename derivation is \<^const>\<open>filename\<close>) and, when there is none, a runner
  configuration. Pictographs in messages are left out throughout.
\<close>

definition createTemplateTestFile :: "string \<Rightarrow> string \<Rightarrow> world \<Rightarrow> world" where
  "createTemplateTestFile testDir testPath w =
     (let w1 = writeFileSync testDir ''pages.spec.ts'' w;
          configPath = path_join (workspace_root w1) ''playwright.config.ts'';
          w2 = (if \<not> existsSync configPath w1
                then writeFileSync (workspace_root w1) ''playwright.config.ts'' w1 else w1)
      in notify (''Created template test file: '' @ testPath @ ''/pages.spec.ts'') w2)"

text \<open>
  The branch of \<^verbatim>\<open>validateSetup\<close> for a test path that is (or is to be) a directory:
  a missing directory is created, and without a test file in it a template is offered.
\<close>

definition check_test_directory :: "string \<Rightarrow> string \<Rightarrow> bool \<Rightarrow> world \<Rightarrow> (error + unit) \<times> world" where
  "check_test_directory testFile testPath testFileExists w =
     (let w1 = (if \<not> testFileExists then mkdirSync testFile w else w);
          files = readdirSync testFile w1;
          testFiles = filter (\<lambda>f. ends_with f ''.spec.ts'' \<or> ends_with f ''.spec.js'') files
      in if length testFiles = 0 then
           (case show_prompt (''No test files found in '' @ testPath @
                   ''. Would you like to create a template test file?'') w1 of
              (action, w2) \<Rightarrow>
                if action = Some ''Create Template''
                then (Inr (), createTemplateTestFile testFile testPath w2)
                else (Inl (Error ''No test files found. Please add test files to continue.''), w2))
         else (Inr (), w1))"

text \<open>
  The branch of \<^verbatim>\<open>validateSetup\<close> for a test file that does not exist: its parent
  directory is created when missing, and a template is offered.
\<close>

definition check_missing_file :: "string \<Rightarrow> string \<Rightarrow> world \<Rightarrow> (error + unit) \<times> world" where
  "check_missing_file testFile testPath w =
     (let parentDir = path_dirname testFile;
          w1 = (if \<not> existsSync parentDir w then mkdirSync parentDir w else w)
      in case show_prompt (''Test file not found: '' @ testPath @
                 ''. Would you like to create a template test file?'') w1 of
           (action, w2) \<Rightarrow>
             if action = Some ''Create Template''
             then (Inr (), createTemplateTestFile parentDir (path_dirname testPath) w2)
             else (Inl (Error ''Test file not found. Please create the test file to continue.''), w2))"

text \<open>
  The middle part of \<^verbatim>\<open>validateSetup\<close>: the test path is looked up. A path that exists
  is a directory or a file; a path that does not exist is taken as a file when it ends
  with \<open>.ts\<close> or \<open>.js\<close>.
\<close>

definition check_test_path :: "string \<Rightarrow> world \<Rightarrow> (error + unit) \<times> world" where
  "check_test_path testPath w =
     (let testFile = path_join (workspace_root w) testPath;
          testFileExists = existsSync testFile w;
          isDir = (if testFileExists then isDirectory testFile w
                   else \<not> ends_with testPath ''.ts'' \<and> \<not> ends_with testPath ''.js'')
      in if isDir then check_test_directory testFile testPath testFileExists w
         else if testFileExists then (Inr (), w)
         else check_missing_file testFile testPath w)"

text \<open>
  \<^verbatim>\<open>validateSetup(testPath)\<close>: the runner tooling is probed, the test path is checked,
  and the workspace is probed for a git repository, in this order.
\<close>

definition validateSetup :: "string \<Rightarrow> world \<Rightarrow> (error + unit) \<times> world" where
  "validateSetup testPath w =
     (case execAsync ''npx playwright --version'' None w of
        (Inl e, w1) \<Rightarrow>
          (Inl (Error ''Playwright is not installed. Please run: npm install -D @playwright/test && npx playwright install''), w1)
      | (Inr _, w1) \<Rightarrow>
          (case check_test_path testPath w1 of
             (Inl e, w2) \<Rightarrow> (Inl e, w2)
           | (Inr _, w2) \<Rightarrow>
               (case execAsync ''git rev-parse --git-dir'' None w2 of
                  (Inl e, w3) \<Rightarrow> (Inl (Error ''Not a Git repository. Please initialize git: git init''), w3)
                | (Inr _, w3) \<Rightarrow> (Inr (), w3))))"

text \<open>\<^verbatim>\<open>showHtmlReport()\<close>: whatever fails in it is caught and reported.\<close>

definition showHtmlReport :: "world \<Rightarrow> unit \<times> world" where
  "showHtmlReport w =
     (let w1 = (case execAsync ''lsof -ti:9323 | xargs kill -9 2>/dev/null || true'' None w of
                  (Inl e, w') \<Rightarrow> w'
                | (Inr _, w') \<Rightarrow> snd (wait 500 w'));
          w2 = snd (exec_spawn ''npx playwright show-report'' None w1);
          w3 = snd (wait 1500 w2);
          w4 = w3\<lparr>opened := opened w3 @ [''http://localhost:9323'']\<rparr>
      in ((), notify ''Visual regression report opened in browser'' w4))"

text \<open>The end of the \<^verbatim>\<open>try\<close> block of \<^verbatim>\<open>runTest\<close>: the result is shown.\<close>

definition show_results :: "string list \<Rightarrow> TestResult \<Rightarrow> world \<Rightarrow> unit \<times> world" where
  "show_results urlPaths result w =
     (if success result then
        ((), notify (''Visual regression tests passed for all '' @ show_nat (length urlPaths)
                     @ '' URL(s)!'') w)
      else
        (case show_prompt ''Visual regression tests failed - differences detected!'' w of
           (action, w') \<Rightarrow> if action = Some ''Show Report'' then showHtmlReport w' else ((), w')))"

text \<open>
  The \<^verbatim>\<open>try\<close> block of \<^verbatim>\<open>runTest\<close>. It completes with its outcome and with what the
  handlers read: the state of the server service and \<open>tmpDir\<close>.
\<close>

definition try_block ::
  "config \<Rightarrow> string list \<Rightarrow> string \<Rightarrow> serverService
     \<Rightarrow> (world, (error + unit) \<times> serverService \<times> string) proc" where
  "try_block cfg urlPaths originalBranch srv =
     (let mainBranch = get (cfg_mainBranch cfg) ''main'';
          port = get (cfg_serverPort cfg) 3000;
          startupTime = get (cfg_serverStartupTime cfg) 5000
      in
      attempt (checkout mainBranch) (srv, []) (\<lambda>_.
      await_opt (start cfg srv) (\<lambda>(started, srv1). case started of
        Inl e \<Rightarrow> Done (Inl e, srv1, [])
      | Inr _ \<Rightarrow>
      await (wait startupTime) (\<lambda>_.
      attempt (updateAllSnapshots cfg urlPaths port) (srv1, []) (\<lambda>_.
      await saveSnapshotsToTemp (\<lambda>tmpDir.
      await_opt (stop srv1) (\<lambda>srv2.
      attempt (checkout originalBranch) (srv2, tmpDir) (\<lambda>_.
      await (restoreSnapshotsFromTemp tmpDir) (\<lambda>_.
      await_opt (start cfg srv2) (\<lambda>(started, srv3). case started of
        Inl e \<Rightarrow> Done (Inl e, srv3, tmpDir)
      | Inr _ \<Rightarrow>
      await (wait startupTime) (\<lambda>_.
      attempt (runAllTests cfg urlPaths port) (srv3, tmpDir) (\<lambda>result.
      await_opt (stop srv3) (\<lambda>srv4.
      await (show_results urlPaths result) (\<lambda>_.
      Done (Inr (), srv4, tmpDir)))))))))))))))"

text \<open>
  The \<^verbatim>\<open>catch\<close> block of \<^verbatim>\<open>runTest\<close>: the server is stopped, the port reclaimed, the
  original branch checked out (a failure of this checkout is logged and dropped), and the
  error is thrown again.
\<close>

definition catch_block ::
  "config \<Rightarrow> string \<Rightarrow> error \<Rightarrow> serverService \<Rightarrow> (world, (error + unit) \<times> serverService) proc" where
  "catch_block cfg originalBranch error srv =
     await_opt (stop srv) (\<lambda>srv1.
     await (killPort (get (cfg_serverPort cfg) 3000)) (\<lambda>_.
     await (\<lambda>w. case checkout originalBranch w of
                  (Inl checkoutError, w') \<Rightarrow>
                    ((), console_error ''Failed to switch back to original branch:'' w')
                | (Inr _, w') \<Rightarrow> ((), w')) (\<lambda>_.
     Done (Inl error, srv1))))"

text \<open>
  \<^verbatim>\<open>TestRunner.runTest(urlPaths, progress)\<close>, with the service instances the runner was
  constructed with. Progress reports and the output channel are left out.
\<close>

definition runTest ::
  "config \<Rightarrow> string list \<Rightarrow> serverService \<Rightarrow> (world, (error + unit) \<times> serverService) proc" where
  "runTest cfg urlPaths srv =
     await (validateSetup (get (cfg_testPath cfg) ''tests/visual'')) (\<lambda>validated. case validated of
       Inl error \<Rightarrow> Done (Inl error, srv)
     | Inr _ \<Rightarrow>
     await getCurrentBranch (\<lambda>current. case current of
       Inl error \<Rightarrow> Done (Inl error, srv)
     | Inr originalBranch \<Rightarrow>
     await clearSnapshots (\<lambda>_.
     and_then (try_block cfg urlPaths originalBranch srv) (\<lambda>(tried, srv1, tmpDir).
     and_then (case tried of
                 Inl error \<Rightarrow> catch_block cfg originalBranch error srv1
               | Inr _ \<Rightarrow> Done (Inr (), srv1)) (\<lambda>(outcome, srv2).
     if tmpDir \<noteq> [] then await (cleanupTemp tmpDir) (\<lambda>_. Done (outcome, srv2))
     else Done (outcome, srv2))))))"

section \<open>VisualRegressionController\<close>

datatype status = Idle | Running | Succeeded | Failed

datatype mode = Full | Changed | Single

record controller =
  isRunning :: bool
  currentProcess :: "child option"
  statusBar :: status
  tooltip :: string

record WorkflowResult = TestResult +
  errorOutput :: string

text \<open>
  The controller is one object shared by all invocations of its commands: its functions
  run on the state of the controller and of the world.
\<close>

definition lift :: "(world \<Rightarrow> 'b \<times> world) \<Rightarrow> controller \<times> world \<Rightarrow> 'b \<times> controller \<times> world" where
  "lift f = (\<lambda>(c, w). case f w of (b, w') \<Rightarrow> (b, c, w'))"

definition on_controller :: "(controller \<Rightarrow> controller) \<Rightarrow> controller \<times> world \<Rightarrow> controller \<times> world" where
  "on_controller g = (\<lambda>(c, w). (g c, w))"

text \<open>
  \<^verbatim>\<open>updateStatusBar(state, message)\<close>. The timer that turns \<open>success\<close> into \<open>idle\<close> after
  five seconds is left out.
\<close>

fun updateStatusBar :: "status \<Rightarrow> string option \<Rightarrow> controller \<Rightarrow> controller" where
  "updateStatusBar Idle message c = c\<lparr>statusBar := Idle, tooltip := ''Click to show test report''\<rparr>"
| "updateStatusBar Running message c =
     c\<lparr>statusBar := Running, tooltip := ''Visual regression tests in progress''\<rparr>"
| "updateStatusBar Succeeded message c =
     c\<lparr>statusBar := Succeeded, tooltip := or_else (get message []) ''All visual tests passed''\<rparr>"
| "updateStatusBar Failed message c =
     c\<lparr>statusBar := Failed,
       tooltip := or_else (get message []) ''Visual regression tests detected differences''\<rparr>"

text \<open>\<^verbatim>\<open>`${error}`\<close> for an \<^verbatim>\<open>Error\<close>.\<close>

definition error_string :: "error \<Rightarrow> string" where
  "error_string e = ''Error: '' @ error_message e"

definition checkGitStatus :: "world \<Rightarrow> bool \<times> world" where
  "checkGitStatus w =
     (case execAsync ''git status --porcelain'' None w of
        (Inl e, w') \<Rightarrow> (False, w')
      | (Inr (out, err), w') \<Rightarrow> (trim out \<noteq> [], w'))"

text \<open>The private \<^verbatim>\<open>getCurrentBranch()\<close> of the controller.\<close>

definition currentBranchOrThrow :: "world \<Rightarrow> (error + string) \<times> world" where
  "currentBranchOrThrow w =
     (case execAsync ''git branch --show-current'' None w of
        (Inl e, w') \<Rightarrow> (Inl (Error ''Could not determine current branch''), w')
      | (Inr (out, err), w') \<Rightarrow> (Inr (trim (show_current_output w)), w'))"

text \<open>
  \<^verbatim>\<open>runCommand(command, taskName)\<close>: the child is tracked in \<open>currentProcess\<close> while it
  runs; the promise resolves when the child closes, whatever its exit code.
\<close>

definition runCommand :: "string \<Rightarrow> (controller \<times> world, WorkflowResult) proc" where
  "runCommand command =
     sync (\<lambda>(c, w). case exec_spawn command None w of
                       (ch, w') \<Rightarrow> (c\<lparr>currentProcess := Some ch\<rparr>, w'))
       (Await (\<lambda>(c, w). (c\<lparr>currentProcess := None\<rparr>,
                          w\<lparr>trace := trace w @ [\<lparr>cmd = command, call_env = None,
                                                  exit = exit_code (next_result w)\<rparr>]\<rparr>))
              (\<lambda>(c, w). Done \<lparr>success = (exit_code (next_result w) = 0),
                                output = stdout (next_result w),
                                errorOutput = stderr (next_result w)\<rparr>))"

text \<open>\<^verbatim>\<open>showReport()\<close>: every failure in it is caught and shown.\<close>

definition showReport :: "world \<Rightarrow> unit \<times> world" where
  "showReport w =
     (case execAsync ''npx playwright show-report'' None w of
        (Inr _, w1) \<Rightarrow> ((), w1)
      | (Inl error, w1) \<Rightarrow>
          (let errorMessage = error_string error
           in if sublist ''EADDRINUSE'' errorMessage then
                (case show_prompt ''Playwright report server is already running on another port. Kill existing server and restart?'' w1 of
                   (action, w2) \<Rightarrow>
                     if action = Some ''Kill & Restart'' then
                       (case execAsync ''pkill -f 'playwright show-report' || true'' None w2 of
                          (Inl retryError, w3) \<Rightarrow>
                            ((), notify (''Failed to restart Playwright report: '' @ error_string retryError) w3)
                        | (Inr _, w3) \<Rightarrow>
                            (case execAsync ''npx playwright show-report'' None (snd (wait 1000 w3)) of
                               (Inl retryError, w4) \<Rightarrow>
                                 ((), notify (''Failed to restart Playwright report: '' @ error_string retryError) w4)
                             | (Inr _, w4) \<Rightarrow> ((), w4)))
                     else if action = Some ''Open in Browser'' then
                       ((), w2\<lparr>opened := opened w2 @ [''http://localhost:9323'']\<rparr>)
                     else ((), w2))
              else ((), notify (''Could not open Playwright report: '' @ errorMessage) w1)))"

text \<open>
  The first thing \<^verbatim>\<open>runWorkflow\<close> does, in one block of synchronous code: a call that
  finds the flag set warns and returns; otherwise the flag is set and the status bar shows
  the run.
\<close>

definition enter :: "controller \<times> world \<Rightarrow> bool \<times> controller \<times> world" where
  "enter = (\<lambda>(c, w).
     if isRunning c then (False, c, notify ''Visual regression tests are already running'' w)
     else (True, updateStatusBar Running None (c\<lparr>isRunning := True\<rparr>), w))"

text \<open>Asking whether to go on; anything but \<open>Continue Anyway\<close> cancels.\<close>

definition confirm :: "string \<Rightarrow> (controller \<times> world, bool) proc" where
  "confirm message = await (lift (show_prompt message)) (\<lambda>proceed. Done (proceed = Some ''Continue Anyway''))"

definition offer_report :: "string \<Rightarrow> (controller \<times> world, error + unit) proc" where
  "offer_report message =
     await (lift (show_prompt message)) (\<lambda>action.
       if action = Some ''Show Report'' then await (lift showReport) (\<lambda>_. Done (Inr ()))
       else Done (Inr ()))"

text \<open>The \<^verbatim>\<open>try\<close> block of \<^verbatim>\<open>runWorkflow\<close>, after the flag is set.\<close>

definition workflow_body :: "config \<Rightarrow> mode option \<Rightarrow> string option \<Rightarrow> (controller \<times> world, error + unit) proc" where
  "workflow_body cfg md page =
     await (lift currentBranchOrThrow) (\<lambda>current. case current of
       Inl error \<Rightarrow> Done (Inl error)
     | Inr currentBranch \<Rightarrow>
     and_then (if currentBranch = ''main''
               then confirm ''You are on the main branch. This workflow is designed for feature branches.''
               else Done True) (\<lambda>proceed.
     if \<not> proceed then sync (on_controller (updateStatusBar Idle None)) (Done (Inr ())) else
     await (lift checkGitStatus) (\<lambda>hasChanges.
     and_then (if hasChanges
               then confirm ''You have uncommitted changes. It's recommended to commit or stash them first.''
               else Done True) (\<lambda>proceed.
     if \<not> proceed then sync (on_controller (updateStatusBar Idle None)) (Done (Inr ())) else
     (let command = ''npm run test:playwright:visual:workflow'' @
            (if md = Some Changed then '' -- --changed''
             else if md = Some Single \<and> get page [] \<noteq> [] then '' -- --page '' @ get page []
             else [])
      in and_then (runCommand command) (\<lambda>result.
           if success result then
             sync (on_controller (updateStatusBar Succeeded (Some ''All visual tests passed!'')))
               (if cfg_notifyOnCompletion cfg then offer_report ''Visual regression tests passed!''
                else Done (Inr ()))
           else
             sync (on_controller (updateStatusBar Failed
                     (Some ''Visual differences detected - click to view report'')))
               (offer_report ''Visual regression tests detected differences'')))))))"

text \<open>
  \<^verbatim>\<open>runWorkflow(mode, page)\<close>: the \<^verbatim>\<open>catch\<close> block shows the error, the \<^verbatim>\<open>finally\<close>
  block clears the flag.
\<close>

definition runWorkflow :: "config \<Rightarrow> mode option \<Rightarrow> string option \<Rightarrow> (controller \<times> world, unit) proc" where
  "runWorkflow cfg md page =
     await enter (\<lambda>entered.
     if \<not> entered then Done () else
     and_then (workflow_body cfg md page) (\<lambda>tried.
     sync (\<lambda>(c, w).
             (case (case tried of
                      Inl error \<Rightarrow>
                        (updateStatusBar Failed None c,
                         notify (''Failed to run visual regression tests: '' @ error_string error) w)
                    | Inr _ \<Rightarrow> (c, w)) of
                (c', w') \<Rightarrow> (c'\<lparr>isRunning := False\<rparr>, w')))
       (Done ())))"

section \<open>Conditions on the environment\<close>






text \<open>The commands run between two states of the world.\<close>

definition commands :: "world \<Rightarrow> world \<Rightarrow> string list" where
  "commands w w' = map cmd (drop (length (trace w)) (trace w'))"

section \<open>Reasoning about runs\<close>


text \<open>
  What follows the \<^verbatim>\<open>try\<close> block in \<^verbatim>\<open>runTest\<close>: the handler after a failure, and
  the final cleanup.
\<close>

definition after_try ::
  "config \<Rightarrow> string \<Rightarrow> error + unit \<Rightarrow> serverService \<Rightarrow> string
     \<Rightarrow> (world, (error + unit) \<times> serverService) proc" where
  "after_try cfg orig tried srv1 tmp =
     and_then (case tried of
                 Inl error \<Rightarrow> catch_block cfg orig error srv1
               | Inr u \<Rightarrow> Done (Inr (), srv1))
       (\<lambda>(outcome, srv2).
          if tmp \<noteq> [] then await (cleanupTemp tmp) (\<lambda>u. Done (outcome, srv2))
          else Done (outcome, srv2))"


section \<open>Observations\<close>

text \<open>
  What is seen of a run that has ended: how it ended, the active branch, the staging
  directories that exist and what was logged with \<^verbatim>\<open>console.error\<close>.
\<close>

definition observe ::
  "(((error + unit) \<times> 'v) \<times> world) option \<Rightarrow> ((error + unit) \<times> string \<times> string set \<times> string list) option" where
  "observe r = map_option (\<lambda>((res, v), w). (res, head_branch w, staging w, console w)) r"

definition outcome :: "(('r \<times> 'v) \<times> 's) option \<Rightarrow> 'r option" where
  "outcome r = map_option (\<lambda>((res, v), s). res) r"

definition final_commands :: "('a \<times> world) option \<Rightarrow> string list option" where
  "final_commands r = map_option (\<lambda>(a, w). map cmd (trace w)) r"

definition final_node :: "string \<Rightarrow> ('a \<times> world) option \<Rightarrow> fs_node option option" where
  "final_node p r = map_option (\<lambda>(a, w). fs w p) r"

text \<open>The \<^verbatim>\<open>git checkout\<close> commands that have been run, in order.\<close>

definition checkouts :: "world \<Rightarrow> string list" where
  "checkouts w = filter (prefix ''git checkout'') (map cmd (trace w))"

text \<open>
  What is seen of two invocations: what each has returned (if it has), the active branch
  and the checkouts that were run.
\<close>

definition seen ::
  "('s, 'a) proc \<times> ('s, 'b) proc \<times> world \<Rightarrow> 'a option \<times> 'b option \<times> string \<times> string list" where
  "seen r = (case r of (p, q, w) \<Rightarrow> (returned p, returned q, head_branch w, checkouts w))"

section \<open>Example inputs\<close>

definition ok :: exec_result where
  "ok = \<lparr>exit_code = 0, stdout = [], stderr = []\<rparr>"

definition failure :: "string \<Rightarrow> string \<Rightarrow> exec_result" where
  "failure out err = \<lparr>exit_code = 1, stdout = out, stderr = err\<rparr>"

definition live_child :: child where
  "live_child = \<lparr>pid = Some 4242, exited = False, has_group = False\<rparr>"

definition fresh_service :: serverService where
  "fresh_service = \<lparr>serverProcess = None\<rparr>"

definition tracking :: "child \<Rightarrow> serverService" where
  "tracking ch = \<lparr>serverProcess = Some ch\<rparr>"


definition default_config :: config where
  "default_config =
     \<lparr>cfg_mainBranch = None, cfg_serverPort = None, cfg_serverStartupTime = None,
      cfg_testPath = None, cfg_serverStartCommand = None, cfg_environmentVariables = None,
      cfg_notifyOnCompletion = False\<rparr>"

text \<open>
  A workspace on branch \<open>b\<close> in which the \<open>n\<close>-th command has the outcome \<open>f n\<close>, the
  \<open>n\<close>-th prompt is answered by \<open>a n\<close>, and every server that is started runs until it
  is stopped. There is no test directory yet.
\<close>

definition workspace :: "string \<Rightarrow> (nat \<Rightarrow> exec_result) \<Rightarrow> (nat \<Rightarrow> string option) \<Rightarrow> world" where
  "workspace b f a =
     \<lparr>workspace_root = ''/ws'', head_branch = b, staging = {}, fs = (\<lambda>p. None),
      now = 1700000000000, process_env = [],
      trace = [], outcome_of = f, spawned = [], child_of = (\<lambda>n. live_child), signals = [],
      prompts = [], answers = a, notifications = [], console = [], opened = []\<rparr>"

text \<open>A workspace whose test directory holds a test file.\<close>

definition prepared :: "string \<Rightarrow> (nat \<Rightarrow> exec_result) \<Rightarrow> (nat \<Rightarrow> string option) \<Rightarrow> world" where
  "prepared b f a =
     (workspace b f a)\<lparr>fs := [''/ws/tests/visual'' \<mapsto> Dir [''pages.spec.ts''],
                               ''/ws/tests/visual/pages.spec.ts'' \<mapsto> File]\<rparr>"

text \<open>A prepared workspace on the branch \<open>feature\<close> in which every command succeeds.\<close>

definition quiet_workspace :: world where
  "quiet_workspace = prepared ''feature'' (\<lambda>n. ok) (\<lambda>n. None)"


text \<open>Something listens on the port: the probe prints a process id.\<close>

definition port_taken :: world where
  "port_taken =
     workspace ''feature'' (\<lambda>n. \<lparr>exit_code = 0, stdout = ''8123'' @ newline, stderr = []\<rparr>) (\<lambda>n. None)"

text \<open>No test directory yet, and the offer of a template is dismissed.\<close>

definition unprepared :: world where
  "unprepared = workspace ''feature'' (\<lambda>n. ok) (\<lambda>n. None)"

text \<open>The workspace is not a git repository.\<close>

definition no_repository :: world where
  "no_repository =
     prepared [] (\<lambda>n. if n = 1 then failure [] ''fatal: not a git repository'' else ok) (\<lambda>n. None)"




text \<open>The server command fails at once: the server process has exited when it is to be stopped.\<close>

definition server_dies :: world where
  "server_dies = quiet_workspace\<lparr>child_of := (\<lambda>n. \<lparr>pid = Some 4242, exited = True, has_group = False\<rparr>)\<rparr>"

text \<open>A schedule written as a word: \<open>A\<close> for a step of the first invocation, anything else for a step of the second.\<close>

definition schedule_of :: "string \<Rightarrow> bool list" where
  "schedule_of s = map (\<lambda>c. c = CHR ''A'') s"

text \<open>
  The command \<^verbatim>\<open>visualRegression.runTest\<close> is invoked twice, each time with a test runner
  and services of its own, as the command handler constructs them. The second invocation
  starts while the first waits for its server on the baseline branch; from then on the
  two take turns.
\<close>

definition two_runs ::
  "(world, (error + unit) \<times> serverService) proc \<times> (world, (error + unit) \<times> serverService) proc \<times> world" where
  "two_runs =
     interleave (schedule_of ''AAAAABBBBBABABABABABABABABABABABAB'')
       (runTest default_config [''/''] fresh_service)
       (runTest default_config [''/''] fresh_service)
       quiet_workspace"

section \<open>Properties of the filename derivation\<close>

lemma in_class_hyphen: "in_class (CHR ''-'')"
  by (simp add: in_class_def)

lemma in_class_underscore: "in_class (CHR ''_'')"
  by (simp add: in_class_def)

lemma filename_chars:
  "replace_global (\<lambda>c. \<not> in_class c) (CHR ''_'')
     (replace_global (\<lambda>c. c = CHR ''/'') (CHR ''-'') q) = map filename_char q"
  by (induction q) (auto simp: filename_char_def in_class_hyphen)

lemma in_class_filename_char: "in_class (filename_char c)"
  by (simp add: filename_char_def in_class_hyphen in_class_underscore)

text \<open>
  C2. The filename is a function of the path string alone. One leading slash is
  stripped; of what remains, every slash becomes a hyphen, every other character outside
  \<^verbatim>\<open>[A-Za-z0-9_-]\<close> becomes an underscore and the characters of the class stay; an empty
  result is replaced by \<open>homepage\<close>. So \<open>/\<close> and the empty string give \<open>homepage\<close>,
  \<open>/a/b\<close> gives \<open>a-b\<close> and \<open>/a?b\<close> gives \<open>a_b\<close>. The result is never empty and lies
  in the class.
\<close>

theorem filename_derivation:
  "filename ''/'' = ''homepage'' \<and> filename ''/a/b'' = ''a-b'' \<and> filename ''/a?b'' = ''a_b''
   \<and> filename [] = ''homepage''
   \<and> filename (CHR ''/'' # r) = (if r = [] then ''homepage'' else map filename_char r)
   \<and> (p \<noteq> [] \<and> hd p \<noteq> CHR ''/'' \<longrightarrow> filename p = map filename_char p)
   \<and> (\<forall>c \<in> set (filename p). in_class c) \<and> filename p \<noteq> []"
proof -
  have ex: "filename ''/'' = ''homepage''" "filename ''/a/b'' = ''a-b''"
    "filename ''/a?b'' = ''a_b''" "filename [] = ''homepage''"
    by (simp_all add: filename_def or_else_def in_class_def is_lower_def is_upper_def is_digit_def)
  have gen: "filename q = (if replace_leading (CHR ''/'') q = [] then ''homepage''
                           else map filename_char (replace_leading (CHR ''/'') q))" for q
    unfolding filename_def filename_chars by (simp add: or_else_def)
  have hp: "\<forall>c \<in> set ''homepage''. in_class c"
    by (simp add: in_class_def is_lower_def)
  have a: "filename (CHR ''/'' # r) = (if r = [] then ''homepage'' else map filename_char r)"
    by (simp add: gen)
  have b: "p \<noteq> [] \<and> hd p \<noteq> CHR ''/'' \<longrightarrow> filename p = map filename_char p"
    by (cases p) (auto simp: gen)
  have c: "\<forall>c \<in> set (filename p). in_class c"
    using hp by (auto simp: gen in_class_filename_char simp del: set_simps list.set)
  have d: "filename p \<noteq> []"
    by (simp add: gen)
  from ex a b c d show ?thesis by blast
qed

theorem filename_derivation_witness:
  "filename ''/docs/v1.2/index.html'' = ''docs-v1_2-index_html''
   \<and> filename ''a b/c'' = ''a_b-c''
   \<and> filename ''a b/c'' \<noteq> []"
  using filename_derivation [of "''docs/v1.2/index.html''" "''a b/c''"]
  by (simp add: filename_char_def in_class_def is_lower_def is_upper_def is_digit_def)

section \<open>Properties of PlaywrightService\<close>





section \<open>Properties of ServerService\<close>



text \<open>
  C8. \<^verbatim>\<open>stop()\<close> without a tracked process resolves and changes neither the service nor
  anything else. After any \<^verbatim>\<open>stop()\<close> that has completed no process is tracked, so that a
  second \<^verbatim>\<open>stop()\<close>, whenever it is called, does nothing.
\<close>

theorem stop_idempotent:
  "(serverProcess srv = None \<longrightarrow> stop srv w = (Some srv, w))
   \<and> (fst (stop srv w) = Some srv' \<longrightarrow> serverProcess srv' = None \<and> stop srv' w' = (Some srv', w'))"
  by (auto simp: stop_def Let_def split: option.splits if_splits)

theorem stop_idempotent_witness:
  "stop fresh_service port_taken = (Some fresh_service, port_taken)
   \<and> fst (stop (tracking live_child) port_taken) = Some fresh_service
   \<and> stop fresh_service (snd (stop (tracking live_child) port_taken))
       = (Some fresh_service, snd (stop (tracking live_child) port_taken))"
proof -
  have a: "serverProcess fresh_service = None" by (simp add: fresh_service_def)
  have b: "fst (stop (tracking live_child) port_taken) = Some fresh_service"
    by (simp add: stop_def tracking_def live_child_def fresh_service_def)
  have c: "stop fresh_service port_taken = (Some fresh_service, port_taken)"
    using stop_idempotent [of fresh_service port_taken] a by blast
  have d: "stop fresh_service (snd (stop (tracking live_child) port_taken))
       = (Some fresh_service, snd (stop (tracking live_child) port_taken))"
    using stop_idempotent [of "tracking live_child" port_taken fresh_service
                          "snd (stop (tracking live_child) port_taken)"] b by blast
  from b c d show ?thesis by blast
qed

section \<open>Running asynchronous functions\<close>

lemma run_await: "run (await f k) s = run (k (fst (f s))) (snd (f s))"
  by (simp add: await_def)

lemma run_await_opt:
  "run (await_opt f k) s = (case fst (f s) of None \<Rightarrow> None | Some b \<Rightarrow> run (k b) (snd (f s)))"
  by (simp add: await_opt_def split: option.splits)

lemma run_sync: "run (sync f p) s = run p (f s)"
  by (simp add: sync_def)

lemma run_and_then:
  "run (and_then p f) s = (case run p s of None \<Rightarrow> None | Some (a, s') \<Rightarrow> run (f a) s')"
  by (induction p arbitrary: s) auto

lemma run_attempt:
  "run (attempt f st k) s =
     (case fst (f s) of Inl e \<Rightarrow> Some ((Inl e, st), snd (f s)) | Inr x \<Rightarrow> run (k x) (snd (f s)))"
  by (simp add: attempt_def run_await split: sum.splits)








lemma snd_execAsync:
  "snd (execAsync c e w) =
     w\<lparr>trace := trace w @ [\<lparr>cmd = c, call_env = e, exit = exit_code (next_result w)\<rparr>],
       now := now w + 1\<rparr>"
  by (simp add: execAsync_def Let_def next_result_def)

section \<open>What the operations leave alone\<close>

named_theorems frames

lemma execAsync_frame [frames]:
  "head_branch (snd (execAsync c e w)) = head_branch w"
  "staging (snd (execAsync c e w)) = staging w"
  "child_of (snd (execAsync c e w)) = child_of w"
  "prefix c0 (console w) \<Longrightarrow> prefix c0 (console (snd (execAsync c e w)))"
  by (simp_all add: snd_execAsync)

lemma exec_spawn_frame [frames]:
  "head_branch (snd (exec_spawn c e w)) = head_branch w"
  "staging (snd (exec_spawn c e w)) = staging w"
  "child_of (snd (exec_spawn c e w)) = child_of w"
  "prefix c0 (console w) \<Longrightarrow> prefix c0 (console (snd (exec_spawn c e w)))"
  by (simp_all add: exec_spawn_def)

lemma show_prompt_frame [frames]:
  "head_branch (snd (show_prompt m w)) = head_branch w"
  "staging (snd (show_prompt m w)) = staging w"
  "child_of (snd (show_prompt m w)) = child_of w"
  "prefix c0 (console w) \<Longrightarrow> prefix c0 (console (snd (show_prompt m w)))"
  by (simp_all add: show_prompt_def)

lemma notify_frame [frames]:
  "head_branch (notify m w) = head_branch w"
  "staging (notify m w) = staging w"
  "child_of (notify m w) = child_of w"
  "prefix c0 (console w) \<Longrightarrow> prefix c0 (console (notify m w))"
  by (simp_all add: notify_def)

lemma console_error_frame [frames]:
  "head_branch (console_error m w) = head_branch w"
  "staging (console_error m w) = staging w"
  "child_of (console_error m w) = child_of w"
  "prefix c0 (console w) \<Longrightarrow> prefix c0 (console (console_error m w))"
  by (simp_all add: console_error_def prefix_prefix)

lemma wait_frame [frames]:
  "head_branch (snd (wait n w)) = head_branch w"
  "staging (snd (wait n w)) = staging w"
  "child_of (snd (wait n w)) = child_of w"
  "prefix c0 (console w) \<Longrightarrow> prefix c0 (console (snd (wait n w)))"
  by (simp_all add: wait_def)

lemma mkdirSync_frame [frames]:
  "head_branch (mkdirSync p w) = head_branch w"
  "staging (mkdirSync p w) = staging w"
  "child_of (mkdirSync p w) = child_of w"
  "prefix c0 (console w) \<Longrightarrow> prefix c0 (console (mkdirSync p w))"
  by (simp_all add: mkdirSync_def)

lemma writeFileSync_frame [frames]:
  "head_branch (writeFileSync d n w) = head_branch w"
  "staging (writeFileSync d n w) = staging w"
  "child_of (writeFileSync d n w) = child_of w"
  "prefix c0 (console w) \<Longrightarrow> prefix c0 (console (writeFileSync d n w))"
  by (simp_all add: writeFileSync_def)

lemma createTemplateTestFile_frame [frames]:
  "head_branch (createTemplateTestFile d p w) = head_branch w"
  "staging (createTemplateTestFile d p w) = staging w"
  "child_of (createTemplateTestFile d p w) = child_of w"
  "prefix c0 (console w) \<Longrightarrow> prefix c0 (console (createTemplateTestFile d p w))"
  by (simp_all add: createTemplateTestFile_def Let_def frames)

lemma check_test_directory_frame [frames]:
  "head_branch (snd (check_test_directory f p ex w)) = head_branch w"
  "staging (snd (check_test_directory f p ex w)) = staging w"
  "child_of (snd (check_test_directory f p ex w)) = child_of w"
  "prefix c0 (console w) \<Longrightarrow> prefix c0 (console (snd (check_test_directory f p ex w)))"
  by (simp_all add: check_test_directory_def Let_def split_beta frames)

lemma check_missing_file_frame [frames]:
  "head_branch (snd (check_missing_file f p w)) = head_branch w"
  "staging (snd (check_missing_file f p w)) = staging w"
  "child_of (snd (check_missing_file f p w)) = child_of w"
  "prefix c0 (console w) \<Longrightarrow> prefix c0 (console (snd (check_missing_file f p w)))"
  by (simp_all add: check_missing_file_def Let_def split_beta frames)

lemma check_test_path_frame [frames]:
  "head_branch (snd (check_test_path p w)) = head_branch w"
  "staging (snd (check_test_path p w)) = staging w"
  "child_of (snd (check_test_path p w)) = child_of w"
  "prefix c0 (console w) \<Longrightarrow> prefix c0 (console (snd (check_test_path p w)))"
  by (simp_all add: check_test_path_def Let_def frames)

lemma validateSetup_frame [frames]:
  "head_branch (snd (validateSetup p w)) = head_branch w"
  "staging (snd (validateSetup p w)) = staging w"
  "child_of (snd (validateSetup p w)) = child_of w"
  "prefix c0 (console w) \<Longrightarrow> prefix c0 (console (snd (validateSetup p w)))"
  by (simp_all add: validateSetup_def split_beta frames split: sum.splits)

lemma getCurrentBranch_frame [frames]:
  "head_branch (snd (getCurrentBranch w)) = head_branch w"
  "staging (snd (getCurrentBranch w)) = staging w"
  "child_of (snd (getCurrentBranch w)) = child_of w"
  "prefix c0 (console w) \<Longrightarrow> prefix c0 (console (snd (getCurrentBranch w)))"
  by (simp_all add: getCurrentBranch_def split_beta frames split: sum.splits)

lemma clearSnapshots_frame [frames]:
  "head_branch (snd (clearSnapshots w)) = head_branch w"
  "staging (snd (clearSnapshots w)) = staging w"
  "child_of (snd (clearSnapshots w)) = child_of w"
  "prefix c0 (console w) \<Longrightarrow> prefix c0 (console (snd (clearSnapshots w)))"
  by (simp_all add: clearSnapshots_def split_beta frames split: sum.splits)

lemma restoreSnapshotsFromTemp_frame [frames]:
  "head_branch (snd (restoreSnapshotsFromTemp d w)) = head_branch w"
  "staging (snd (restoreSnapshotsFromTemp d w)) = staging w"
  "child_of (snd (restoreSnapshotsFromTemp d w)) = child_of w"
  "prefix c0 (console w) \<Longrightarrow> prefix c0 (console (snd (restoreSnapshotsFromTemp d w)))"
  by (simp_all add: restoreSnapshotsFromTemp_def split_beta frames split: sum.splits)

lemma updateAllSnapshots_frame [frames]:
  "head_branch (snd (updateAllSnapshots cfg us p w)) = head_branch w"
  "staging (snd (updateAllSnapshots cfg us p w)) = staging w"
  "child_of (snd (updateAllSnapshots cfg us p w)) = child_of w"
  "prefix c0 (console w) \<Longrightarrow> prefix c0 (console (snd (updateAllSnapshots cfg us p w)))"
  by (simp_all add: updateAllSnapshots_def Let_def split_beta frames split: sum.splits)

lemma runAllTests_frame [frames]:
  "head_branch (snd (runAllTests cfg us p w)) = head_branch w"
  "staging (snd (runAllTests cfg us p w)) = staging w"
  "child_of (snd (runAllTests cfg us p w)) = child_of w"
  "prefix c0 (console w) \<Longrightarrow> prefix c0 (console (snd (runAllTests cfg us p w)))"
  by (simp_all add: runAllTests_def Let_def split_beta frames split: sum.splits)

lemma killPort_frame [frames]:
  "head_branch (snd (killPort p w)) = head_branch w"
  "staging (snd (killPort p w)) = staging w"
  "child_of (snd (killPort p w)) = child_of w"
  "prefix c0 (console w) \<Longrightarrow> prefix c0 (console (snd (killPort p w)))"
  by (simp_all add: killPort_def frames)

lemma showHtmlReport_frame [frames]:
  "head_branch (snd (showHtmlReport w)) = head_branch w"
  "staging (snd (showHtmlReport w)) = staging w"
  "child_of (snd (showHtmlReport w)) = child_of w"
  "prefix c0 (console w) \<Longrightarrow> prefix c0 (console (snd (showHtmlReport w)))"
  by (simp_all add: showHtmlReport_def Let_def split_beta frames split: sum.splits)

lemma show_results_frame [frames]:
  "head_branch (snd (show_results us r w)) = head_branch w"
  "staging (snd (show_results us r w)) = staging w"
  "child_of (snd (show_results us r w)) = child_of w"
  "prefix c0 (console w) \<Longrightarrow> prefix c0 (console (snd (show_results us r w)))"
  by (simp_all add: show_results_def split_beta frames)

lemma isPortInUse_frame [frames]:
  "head_branch (snd (isPortInUse p w)) = head_branch w"
  "staging (snd (isPortInUse p w)) = staging w"
  "child_of (snd (isPortInUse p w)) = child_of w"
  "prefix c0 (console w) \<Longrightarrow> prefix c0 (console (snd (isPortInUse p w)))"
  by (simp_all add: isPortInUse_def split_beta frames split: sum.splits)

lemma stop_frame [frames]:
  "head_branch (snd (stop srv w)) = head_branch w"
  "staging (snd (stop srv w)) = staging w"
  "child_of (snd (stop srv w)) = child_of w"
  "prefix c0 (console w) \<Longrightarrow> prefix c0 (console (snd (stop srv w)))"
  by (simp_all add: stop_def Let_def split: option.splits)

lemma start_frame [frames]:
  "head_branch (snd (start cfg srv w)) = head_branch w"
  "staging (snd (start cfg srv w)) = staging w"
  "child_of (snd (start cfg srv w)) = child_of w"
  "prefix c0 (console w) \<Longrightarrow> prefix c0 (console (snd (start cfg srv w)))"
  by (simp_all add: start_def Let_def split_beta frames split: option.splits)

lemma checkout_frame [frames]:
  "staging (snd (checkout b w)) = staging w"
  "child_of (snd (checkout b w)) = child_of w"
  "prefix c0 (console w) \<Longrightarrow> prefix c0 (console (snd (checkout b w)))"
  by (simp_all add: checkout_def Let_def split_beta frames split: sum.splits)


lemma save_frame [frames]:
  "head_branch (snd (saveSnapshotsToTemp w)) = head_branch w"
  "child_of (snd (saveSnapshotsToTemp w)) = child_of w"
  "prefix c0 (console w) \<Longrightarrow> prefix c0 (console (snd (saveSnapshotsToTemp w)))"
  by (simp_all add: saveSnapshotsToTemp_def Let_def split_beta frames split: sum.splits)



lemma cleanupTemp_frame [frames]:
  "head_branch (snd (cleanupTemp d w)) = head_branch w"
  "child_of (snd (cleanupTemp d w)) = child_of w"
  "prefix c0 (console w) \<Longrightarrow> prefix c0 (console (snd (cleanupTemp d w)))"
  by (simp_all add: cleanupTemp_def Let_def split_beta frames split: sum.splits)









section \<open>The run of the workflow\<close>









lemma runTest_unfold:
  "runTest cfg urlPaths srv =
     await (validateSetup (get (cfg_testPath cfg) ''tests/visual'')) (\<lambda>validated. case validated of
       Inl error \<Rightarrow> Done (Inl error, srv)
     | Inr u \<Rightarrow>
     await getCurrentBranch (\<lambda>current. case current of
       Inl error \<Rightarrow> Done (Inl error, srv)
     | Inr originalBranch \<Rightarrow>
     await clearSnapshots (\<lambda>u.
     and_then (try_block cfg urlPaths originalBranch srv) (\<lambda>(tried, srv1, tmpDir).
       after_try cfg originalBranch tried srv1 tmpDir))))"
  unfolding runTest_def after_try_def by (rule refl)



section \<open>Evaluating runs\<close>

text \<open>
  A run on a given world is evaluated step by step: the continuation of an \<^verbatim>\<open>await\<close> is
  looked at only when the awaited operation has completed.
\<close>

lemma await_cong: "f = g \<Longrightarrow> await f k = await g k"
  by simp

lemma await_opt_cong: "f = g \<Longrightarrow> await_opt f k = await_opt g k"
  by simp

lemma attempt_cong: "f = g \<Longrightarrow> attempt f st k = attempt g st k"
  by simp

lemma and_then_cong: "p = q \<Longrightarrow> and_then p f = and_then q f"
  by simp

lemmas run_simps = run_await run_await_opt run_attempt run_and_then run_sync

lemmas proc_congs = await_cong await_opt_cong attempt_cong and_then_cong

lemmas env_defs = execAsync_def exec_spawn_def console_error_def show_prompt_def notify_def
  wait_def existsSync_def isDirectory_def readdirSync_def mkdirSync_def writeFileSync_def
  path_join_def path_dirname_def ends_with_def get_def spread_def newline_def trim_def
  is_space_def digit_char_def show_nat.simps or_else_def

lemmas service_defs = getCurrentBranch_def show_current_output_def checkout_def
  clearSnapshots_def saveSnapshotsToTemp_def restoreSnapshotsFromTemp_def cleanupTemp_def
  isPortInUse_def stop_def start_def killPort_def updateAllSnapshots_def runAllTests_def

lemmas runner_defs = createTemplateTestFile_def check_test_directory_def
  check_missing_file_def check_test_path_def validateSetup_def showHtmlReport_def
  show_results_def try_block_def catch_block_def runTest_def

lemmas fixture_defs = ok_def failure_def live_child_def workspace_def prepared_def
  quiet_workspace_def default_config_def fresh_service_def tracking_def

lemmas observation_defs = outcome_def final_commands_def final_node_def observe_def



section \<open>Properties of a run of the workflow\<close>







text \<open>
  Why the server processes must be stoppable: when the server process has exited before
  \<^verbatim>\<open>stop()\<close> is called, the promise of \<^verbatim>\<open>stop()\<close> is never settled, and the run does not
  end.
\<close>

lemma stop_never_settles:
  "pid ch \<noteq> None \<Longrightarrow> exited ch \<Longrightarrow> fst (stop (tracking ch) w) = None"
  by (auto simp: stop_def tracking_def Let_def split: option.splits)

lemma run_never_ends: "run (runTest default_config [''/''] fresh_service) server_dies = None"
  by (simp add: server_dies_def run_simps env_defs service_defs runner_defs fixture_defs
        Let_def cong: proc_congs)

section \<open>Validation failures\<close>

lemma trace_frames:
  "trace (snd (show_prompt m w)) = trace w"
  "trace (notify m w) = trace w"
  "trace (mkdirSync p w) = trace w"
  "trace (writeFileSync d n w) = trace w"
  by (simp_all add: show_prompt_def notify_def mkdirSync_def writeFileSync_def)

lemma more_frames:
  "spawned (snd (show_prompt m w)) = spawned w" "signals (snd (show_prompt m w)) = signals w"
  "spawned (notify m w) = spawned w" "signals (notify m w) = signals w"
  "spawned (mkdirSync p w) = spawned w" "signals (mkdirSync p w) = signals w"
  "spawned (writeFileSync d n w) = spawned w" "signals (writeFileSync d n w) = signals w"
  "spawned (snd (execAsync c e w)) = spawned w" "signals (snd (execAsync c e w)) = signals w"
  by (simp_all add: show_prompt_def notify_def mkdirSync_def writeFileSync_def snd_execAsync)

lemma createTemplateTestFile_quiet:
  "trace (createTemplateTestFile d p w) = trace w"
  "spawned (createTemplateTestFile d p w) = spawned w"
  "signals (createTemplateTestFile d p w) = signals w"
  by (simp_all add: createTemplateTestFile_def Let_def trace_frames more_frames)

lemma check_test_directory_quiet:
  "trace (snd (check_test_directory f p ex w)) = trace w"
  "spawned (snd (check_test_directory f p ex w)) = spawned w"
  "signals (snd (check_test_directory f p ex w)) = signals w"
  by (simp_all add: check_test_directory_def Let_def split_beta trace_frames more_frames
        createTemplateTestFile_quiet)

lemma check_missing_file_quiet:
  "trace (snd (check_missing_file f p w)) = trace w"
  "spawned (snd (check_missing_file f p w)) = spawned w"
  "signals (snd (check_missing_file f p w)) = signals w"
  by (simp_all add: check_missing_file_def Let_def split_beta trace_frames more_frames
        createTemplateTestFile_quiet)

lemma trace_execAsync:
  "trace (snd (execAsync c e w)) = trace w @ [\<lparr>cmd = c, call_env = e, exit = exit_code (next_result w)\<rparr>]"
  by (simp add: snd_execAsync)


lemma check_test_directory_failure:
  "fst (check_test_directory f p ex w) = Inl e \<Longrightarrow>
     e = Error ''No test files found. Please add test files to continue.''"
  by (simp add: check_test_directory_def Let_def split_beta split: if_splits)

lemma check_missing_file_failure:
  "fst (check_missing_file f p w) = Inl e \<Longrightarrow>
     e = Error ''Test file not found. Please create the test file to continue.''"
  by (simp add: check_missing_file_def Let_def split_beta split: if_splits)

lemma check_test_path_trace: "trace (snd (check_test_path p w)) = trace w"
  by (simp add: check_test_path_def Let_def check_test_directory_quiet check_missing_file_quiet)

lemma check_test_path_quiet:
  "spawned (snd (check_test_path p w)) = spawned w"
  "signals (snd (check_test_path p w)) = signals w"
  by (simp_all add: check_test_path_def Let_def check_test_directory_quiet check_missing_file_quiet)

lemma validateSetup_quiet:
  "spawned (snd (validateSetup p w)) = spawned w"
  "signals (snd (validateSetup p w)) = signals w"
  by (simp_all add: validateSetup_def split_beta more_frames check_test_path_quiet
        split: sum.splits)

lemma check_test_path_failure:
  "fst (check_test_path p w) = Inl e \<Longrightarrow>
     e \<in> {Error ''No test files found. Please add test files to continue.'',
          Error ''Test file not found. Please create the test file to continue.''}"
  by (auto simp add: check_test_path_def Let_def split: if_splits
        dest: check_test_directory_failure check_missing_file_failure)

lemma validateSetup_failure:
  assumes "fst (validateSetup p w) = Inl e"
  shows "if e = Error ''Not a Git repository. Please initialize git: git init''
         then commands w (snd (validateSetup p w)) = [''npx playwright --version'', ''git rev-parse --git-dir'']
         else commands w (snd (validateSetup p w)) = [''npx playwright --version'']
              \<and> e \<in> {Error ''Playwright is not installed. Please run: npm install -D @playwright/test && npx playwright install'',
                      Error ''No test files found. Please add test files to continue.'',
                      Error ''Test file not found. Please create the test file to continue.''}"
proof -
  obtain r1 w1 where e1: "execAsync ''npx playwright --version'' None w = (r1, w1)" by force
  have t1: "trace w1 = trace w @ [\<lparr>cmd = ''npx playwright --version'', call_env = None, exit = exit_code (next_result w)\<rparr>]"
    using trace_execAsync [of "''npx playwright --version''" None w] e1 by simp
  show ?thesis
  proof (cases r1)
    case (Inl a)
    with e1 t1 assms show ?thesis
      by (auto simp add: validateSetup_def commands_def)
  next
    case r1: (Inr a)
    obtain r2 w2 where e2: "check_test_path p w1 = (r2, w2)" by force
    have t2: "trace w2 = trace w1"
      using check_test_path_trace [of p w1] e2 by simp
    show ?thesis
    proof (cases r2)
      case (Inl e')
      have "e' \<in> {Error ''No test files found. Please add test files to continue.'',
          Error ''Test file not found. Please create the test file to continue.''}"
        using check_test_path_failure [of p w1 e'] e2 Inl by simp
      with e1 r1 e2 Inl t1 t2 assms show ?thesis
        by (auto simp add: validateSetup_def commands_def)
    next
      case r2: (Inr u)
      obtain r3 w3 where e3: "execAsync ''git rev-parse --git-dir'' None w2 = (r3, w3)" by force
      have t3: "trace w3 = trace w2 @ [\<lparr>cmd = ''git rev-parse --git-dir'', call_env = None, exit = exit_code (next_result w2)\<rparr>]"
        using trace_execAsync [of "''git rev-parse --git-dir''" None w2] e3 by simp
      from e1 r1 e2 r2 e3 t1 t2 t3 assms show ?thesis
        by (cases r3) (auto simp add: validateSetup_def commands_def)
    qed
  qed
qed

text \<open>
  C6, as the code has it. When \<^verbatim>\<open>validateSetup\<close> fails, \<^verbatim>\<open>runTest\<close> ends with its
  error at once: the active branch is unchanged, no process has been started or signalled
  and no staging directory created. The only commands that have run are the probe of the
  runner tooling and, when the error is that the workspace is no git repository, the
  probe \<^verbatim>\<open>git rev-parse --git-dir\<close> that found it out. (Nothing is said about the file
  system: a missing test directory is created before the template is offered.)
\<close>

theorem validation_failure_aborts:
  assumes "fst (validateSetup (get (cfg_testPath cfg) ''tests/visual'') w) = Inl e"
  shows "\<exists>w'. run (runTest cfg urlPaths srv) w = Some ((Inl e, srv), w')
           \<and> head_branch w' = head_branch w \<and> spawned w' = spawned w \<and> signals w' = signals w
           \<and> staging w' = staging w
           \<and> (if e = Error ''Not a Git repository. Please initialize git: git init''
               then commands w w' = [''npx playwright --version'', ''git rev-parse --git-dir'']
               else commands w w' = [''npx playwright --version''])"
proof -
  let ?w' = "snd (validateSetup (get (cfg_testPath cfg) ''tests/visual'') w)"
  have r: "run (runTest cfg urlPaths srv) w = Some ((Inl e, srv), ?w')"
    using assms by (simp add: runTest_unfold run_await)
  have c: "if e = Error ''Not a Git repository. Please initialize git: git init''
               then commands w ?w' = [''npx playwright --version'', ''git rev-parse --git-dir'']
               else commands w ?w' = [''npx playwright --version'']"
    using validateSetup_failure [OF assms] by (simp split: if_splits)
  have f: "head_branch ?w' = head_branch w" "spawned ?w' = spawned w" "signals ?w' = signals w"
    "staging ?w' = staging w"
    by (simp_all add: frames validateSetup_quiet)
  from r c f show ?thesis by blast
qed

theorem validation_failure_aborts_witness:
  "fst (validateSetup (get (cfg_testPath default_config) ''tests/visual'') no_repository)
     = Inl (Error ''Not a Git repository. Please initialize git: git init'')
   \<and> (\<exists>w'. run (runTest default_config [''/''] fresh_service) no_repository
              = Some ((Inl (Error ''Not a Git repository. Please initialize git: git init''),
                       fresh_service), w')
         \<and> head_branch w' = head_branch no_repository \<and> spawned w' = spawned no_repository
         \<and> signals w' = signals no_repository \<and> staging w' = staging no_repository
         \<and> commands no_repository w' = [''npx playwright --version'', ''git rev-parse --git-dir''])"
proof -
  have a: "fst (validateSetup (get (cfg_testPath default_config) ''tests/visual'') no_repository)
     = Inl (Error ''Not a Git repository. Please initialize git: git init'')"
    by (simp add: no_repository_def env_defs runner_defs fixture_defs Let_def)
  show ?thesis
    using validation_failure_aborts [OF a, of "[''/'']" fresh_service] a by simp
qed

text \<open>
  C6, as the claim has it, fails twice. With no test directory and the offer of a template
  dismissed, validation fails after it has created the directory. In a workspace that is
  no git repository, validation fails after a git command has run: the probe itself.
\<close>

theorem validation_mutates:
  "fs unprepared ''/ws/tests/visual'' = None
   \<and> outcome (run (runTest default_config [''/''] fresh_service) unprepared)
       = Some (Inl (Error ''No test files found. Please add test files to continue.''))
   \<and> final_node ''/ws/tests/visual'' (run (runTest default_config [''/''] fresh_service) unprepared)
       = Some (Some (Dir []))
   \<and> outcome (run (runTest default_config [''/''] fresh_service) no_repository)
       = Some (Inl (Error ''Not a Git repository. Please initialize git: git init''))
   \<and> final_commands (run (runTest default_config [''/''] fresh_service) no_repository)
       = Some [''npx playwright --version'', ''git rev-parse --git-dir'']"
  by (simp add: unprepared_def no_repository_def run_simps env_defs service_defs runner_defs
        fixture_defs observation_defs Let_def cong: proc_congs)

section \<open>Properties of VisualRegressionController\<close>

lemma isRunning_updateStatusBar: "isRunning (updateStatusBar st m c) = isRunning c"
  by (cases st) auto









text \<open>
  A call of \<^verbatim>\<open>runWorkflow\<close> that finds the flag set returns at once: it shows a warning,
  runs no command and leaves the controller as it is.
\<close>

lemma runWorkflow_rejected:
  "isRunning c \<Longrightarrow>
     run (runWorkflow cfg md page) (c, w)
       = Some ((), (c, notify ''Visual regression tests are already running'' w))"
  by (simp add: runWorkflow_def run_await enter_def)

text \<open>
  The flag is set in the first step of a call that is not rejected, so that every call
  that starts before this one has ended is rejected.
\<close>

lemma runWorkflow_sets_flag:
  "\<not> isRunning c \<Longrightarrow> fst (enter (c, w)) = True \<and> isRunning (fst (snd (enter (c, w))))"
  by (simp add: enter_def isRunning_updateStatusBar del: updateStatusBar.simps)

section \<open>Two invocations at the same time\<close>

lemma and_then_await: "and_then (await f k) g = await f (\<lambda>b. and_then (k b) g)"
  by (simp add: await_def)

lemma and_then_await_opt: "and_then (await_opt f k) g = await_opt f (\<lambda>b. and_then (k b) g)"
  by (auto simp add: await_opt_def split: option.splits)

lemma and_then_attempt:
  "and_then (attempt f st k) g =
     await f (\<lambda>r. case r of Inl e \<Rightarrow> g (Inl e, st) | Inr x \<Rightarrow> and_then (k x) g)"
  by (auto simp add: attempt_def await_def split: sum.splits)

lemma interleave_await:
  "interleave (True # sch) (await f k) q s = interleave sch (k (fst (f s))) q (snd (f s))"
  "interleave (False # sch) p (await f k) s = interleave sch p (k (fst (f s))) (snd (f s))"
  by (simp_all add: await_def)

lemma interleave_await_opt:
  "interleave (True # sch) (await_opt f k) q s =
     interleave sch (case fst (f s) of None \<Rightarrow> Hang | Some b \<Rightarrow> k b) q (snd (f s))"
  "interleave (False # sch) p (await_opt f k) s =
     interleave sch p (case fst (f s) of None \<Rightarrow> Hang | Some b \<Rightarrow> k b) (snd (f s))"
  by (simp_all add: await_opt_def)

lemma interleave_cong:
  "sch = sch' \<Longrightarrow> s = s' \<Longrightarrow> interleave sch p q s = interleave sch' p q s'"
  by simp

lemmas interleave_simps = interleave_await interleave_await_opt and_then_await and_then_await_opt
  and_then_attempt

text \<open>
  C9 fails for \<^verbatim>\<open>runTest\<close>: nothing rejects a second invocation of the command while the
  first is in progress. Here the second invocation starts while the first waits for its
  server on the branch \<open>main\<close>. It is not rejected: it takes \<open>main\<close> for the original
  branch, and its checkouts interleave with those of the first. Both invocations end
  without an error, and the workspace, which was on \<open>feature\<close>, is left on \<open>main\<close>.
\<close>

theorem concurrent_runs_interleave:
  "head_branch quiet_workspace = ''feature''
   \<and> seen two_runs
       = (Some (Inr (), fresh_service), Some (Inr (), fresh_service), ''main'',
          [''git checkout -f main'', ''git checkout -f main'',
           ''git checkout -f feature'', ''git checkout -f main''])"
  by (simp add: seen_def two_runs_def schedule_of_def checkouts_def
        interleave_simps env_defs service_defs runner_defs fixture_defs Let_def
      cong: proc_congs)

end
